theory Spec2Isabelle
  imports Complex_Main "HOL-Library.Word"
begin

section \<open>The data model of \<open>plugin/LoadAware/metrics_obtain.go\<close>\<close>

text \<open>
  Go's \<open>int64\<close> is a 64-bit word; \<open>sint\<close> reads it as the signed value. Go's \<open>int\<close> is 64 bits
  wide on the two architectures the Makefile builds for (amd64 and arm64), so the conversion
  \<open>int64(x)\<close> of an \<open>int\<close> is the identity. \<open>v1.ResourceName\<close> is a string type.
\<close>

type_synonym int64 = "64 word"
type_synonym go_int = "64 word"
type_synonym ResourceName = string

text \<open>The resource names of \<open>k8s.io/api/core/v1\<close> that the file switches on.\<close>

definition ResourceCPU :: ResourceName where
  "ResourceCPU = ''cpu''"

definition ResourceMemory :: ResourceName where
  "ResourceMemory = ''memory''"

definition ResourceEphemeralStorage :: ResourceName where
  "ResourceEphemeralStorage = ''ephemeral-storage''"

text \<open>
  Two names the file uses are declared outside it and are taken as parameters of the model:
  the constant \<open>v1.ResourcePodNum\<close> (the repository's own addition to the API package) and
  the predicate \<open>schedutil.IsScalarResourceName\<close>. A Go \<open>switch\<close> or map literal with two
  equal constant cases does not compile, so in every build \<open>ResourcePodNum\<close> differs from the
  three names above; \<open>distinct_names\<close> states that.
\<close>

record k8s =
  ResourcePodNum :: ResourceName
  IsScalarResourceName :: "ResourceName \<Rightarrow> bool"

definition distinct_names :: "k8s \<Rightarrow> bool" where
  "distinct_names K =
     (ResourcePodNum K \<noteq> ResourceCPU \<and> ResourcePodNum K \<noteq> ResourceMemory \<and>
      ResourcePodNum K \<noteq> ResourceEphemeralStorage)"

text \<open>
  A Go map is an association list here: its keys are pairwise different, and \<open>range\<close> yields
  the entries in the order of the list. Go leaves that order unspecified, so the list also
  stands for the order one run happens to take. A \<open>nil\<close> map is \<open>None\<close>. Reading a key that is
  not in a map (or reading a \<open>nil\<close> map) gives the zero value.
\<close>

type_synonym resourceToWeightMap = "(ResourceName \<times> int64) list"
type_synonym resourceToValueMap = "ResourceName \<rightharpoonup> int64"

definition index :: "(ResourceName \<rightharpoonup> int64) \<Rightarrow> ResourceName \<Rightarrow> int64" where
  "index m key = (case m key of None \<Rightarrow> 0 | Some v \<Rightarrow> v)"

text \<open>
  \<open>framework.Resource\<close>, \<open>v1.Node\<close> (its name only) and \<open>framework.NodeInfo\<close>. A pod is
  its name: the file only counts the pods. \<open>NodeInfo.Node()\<close> returns the \<open>node\<close> field, which
  may be \<open>nil\<close>. The pointer to the \<open>NodeInfo\<close> itself and its three \<open>Resource\<close> pointers are
  taken as allocated, as they are in every \<open>NodeInfo\<close> the framework builds.
\<close>

record Resource =
  MilliCPU :: int64
  Memory :: int64
  EphemeralStorage :: int64
  AllowedPodNumber :: go_int
  ScalarResources :: "ResourceName \<rightharpoonup> int64"

record Node =
  ObjectMeta_Name :: string

type_synonym PodInfo = string

record NodeInfo =
  node :: "Node option"
  Pods :: "PodInfo list"
  Requested :: Resource
  NonZeroRequested :: Resource
  Allocatable :: Resource

text \<open>
  \<open>framework.Status\<close>: a code and the reasons. Of the framework's codes the file uses
  \<open>Error\<close> only. The \<open>nil\<close> status, which the framework reads as success, is \<open>None\<close>.
\<close>

datatype Code = Success | Error

record Status =
  code :: Code
  reasons :: "string list"

definition NewStatus :: "Code \<Rightarrow> string \<Rightarrow> Status" where
  "NewStatus c reason = \<lparr>code = c, reasons = [reason]\<rparr>"

text \<open>
  The metrics client. \<open>NodeMetricses().Get\<close> is a round trip to the metrics server, and two
  calls may be answered differently, so a client is the sequence of the server's answers:
  \<open>client t name\<close> is the answer to the query for \<open>name\<close> when \<open>t\<close> queries were issued
  before it. An answer is an error (its message) or the node's metrics, of which the file
  reads \<open>Usage.Cpu().MilliValue()\<close> and \<open>Usage.Memory().Value()\<close>.
\<close>

record NodeMetrics =
  Usage_Cpu_MilliValue :: int64
  Usage_Memory_Value :: int64

type_synonym Clientset = "nat \<Rightarrow> string \<Rightarrow> string + NodeMetrics"

text \<open>
  \<open>resourceAllocationScorer\<close>. The \<open>scorer\<close> field holds a function of the two value maps
  (the requested or cost map first, the allocatable map second).
\<close>

record resourceAllocationScorer =
  Name :: string
  scorer :: "resourceToValueMap \<Rightarrow> resourceToValueMap \<Rightarrow> int64"
  resourceToWeightMap :: "resourceToWeightMap option"
  metricsClient :: "Clientset option"

text \<open>A run-time panic of the Go code is a value.\<close>

datatype panic = NilPointerDereference

section \<open>The default weights\<close>

text \<open>\<open>1 << 20\<close> is a left shift of the \<open>int64\<close> constant 1.\<close>

definition defaultResourcesToWeightMap :: "k8s \<Rightarrow> resourceToWeightMap" where
  "defaultResourcesToWeightMap K =
     [(ResourceMemory, 1), (ResourceCPU, push_bit 20 1), (ResourcePodNum K, 1)]"

section \<open>The resolver\<close>

text \<open>
  \<open>calculateResourceAllocatableRequest\<close>: the static estimate. The \<open>klog\<close> call before the last
  \<open>return\<close> writes a log line and has no part in the result; the model leaves logging out.
\<close>

definition calculateResourceAllocatableRequest ::
    "k8s \<Rightarrow> NodeInfo \<Rightarrow> ResourceName \<Rightarrow> int64 \<times> int64" where
  "calculateResourceAllocatableRequest K nodeInfo resource =
     (if resource = ResourceCPU then
        (MilliCPU (Allocatable nodeInfo), MilliCPU (NonZeroRequested nodeInfo))
      else if resource = ResourceMemory then
        (Memory (Allocatable nodeInfo), Memory (NonZeroRequested nodeInfo))
      else if resource = ResourcePodNum K then
        (AllowedPodNumber (Allocatable nodeInfo), word_of_nat (length (Pods nodeInfo)))
      else if resource = ResourceEphemeralStorage then
        (EphemeralStorage (Allocatable nodeInfo), EphemeralStorage (NonZeroRequested nodeInfo))
      else if IsScalarResourceName K resource then
        (index (ScalarResources (Allocatable nodeInfo)) resource,
         index (ScalarResources (NonZeroRequested nodeInfo)) resource)
      else (0, 0))"

text \<open>
  \<open>calculateResourceAllocatableCost\<close>, with the number \<open>t\<close> of queries issued so far passed in
  and returned. With a client configured the node's name is read first: \<open>nodeInfo.Node().Name\<close>
  panics when the node is \<open>nil\<close>.
\<close>

definition calculateResourceAllocatableCost ::
    "k8s \<Rightarrow> resourceAllocationScorer \<Rightarrow> NodeInfo \<Rightarrow> ResourceName \<Rightarrow> nat \<Rightarrow>
       (panic + int64 \<times> int64) \<times> nat" where
  "calculateResourceAllocatableCost K r nodeInfo resource t =
     (case metricsClient r of
        None \<Rightarrow> (Inr (calculateResourceAllocatableRequest K nodeInfo resource), t)
      | Some client \<Rightarrow>
          (case node nodeInfo of
             None \<Rightarrow> (Inl NilPointerDereference, t)
           | Some n \<Rightarrow>
               (case client t (ObjectMeta_Name n) of
                  Inl err \<Rightarrow> (Inr (calculateResourceAllocatableRequest K nodeInfo resource), Suc t)
                | Inr nodeMetrics \<Rightarrow>
                    (Inr
                      (if resource = ResourceCPU then
                         (if Usage_Cpu_MilliValue nodeMetrics = 0 then
                            (MilliCPU (Allocatable nodeInfo), MilliCPU (NonZeroRequested nodeInfo))
                          else (MilliCPU (Allocatable nodeInfo), Usage_Cpu_MilliValue nodeMetrics))
                       else if resource = ResourceMemory then
                         (if Usage_Memory_Value nodeMetrics = 0 then
                            (Memory (Allocatable nodeInfo), Memory (NonZeroRequested nodeInfo))
                          else (Memory (Allocatable nodeInfo), Usage_Memory_Value nodeMetrics))
                       else if resource = ResourcePodNum K then
                         (AllowedPodNumber (Allocatable nodeInfo),
                          word_of_nat (length (Pods nodeInfo)))
                       else if resource = ResourceEphemeralStorage then
                         (EphemeralStorage (Allocatable nodeInfo),
                          EphemeralStorage (Requested nodeInfo))
                       else if IsScalarResourceName K resource then
                         (index (ScalarResources (Allocatable nodeInfo)) resource,
                          index (ScalarResources (Requested nodeInfo)) resource)
                       else (0, 0)),
                     Suc t))))"

section \<open>The score operation\<close>

text \<open>
  The \<open>range\<close> loop of \<open>score\<close> over the keys of the weight map, filling the two value maps.
  A panic of the resolver ends it.
\<close>

fun score_range ::
    "k8s \<Rightarrow> resourceAllocationScorer \<Rightarrow> NodeInfo \<Rightarrow> ResourceName list \<Rightarrow>
       resourceToValueMap \<times> resourceToValueMap \<Rightarrow> nat \<Rightarrow>
       (panic + resourceToValueMap \<times> resourceToValueMap) \<times> nat" where
  "score_range K r nodeInfo [] (allocatable, cost) t = (Inr (allocatable, cost), t)"
| "score_range K r nodeInfo (resource # rest) (allocatable, cost) t =
     (case calculateResourceAllocatableCost K r nodeInfo resource t of
        (Inl p, t') \<Rightarrow> (Inl p, t')
      | (Inr (a, c), t') \<Rightarrow>
          score_range K r nodeInfo rest (allocatable(resource \<mapsto> a), cost(resource \<mapsto> c)) t')"

text \<open>
  \<open>score\<close>. The two \<open>klog.Infof\<close> calls and the JSON rendering they print are left out. The
  result is the pair the Go function returns, or a panic.
\<close>

definition score ::
    "k8s \<Rightarrow> resourceAllocationScorer \<Rightarrow> NodeInfo \<Rightarrow> nat \<Rightarrow>
       (panic + int64 \<times> Status option) \<times> nat" where
  "score K r nodeInfo t =
     (case node nodeInfo of
        None \<Rightarrow> (Inr (0, Some (NewStatus Error ''node not found'')), t)
      | Some n \<Rightarrow>
          (case resourceToWeightMap r of
             None \<Rightarrow> (Inr (0, Some (NewStatus Error ''resources not found'')), t)
           | Some weights \<Rightarrow>
               (case score_range K r nodeInfo (map fst weights) (Map.empty, Map.empty) t of
                  (Inl p, t') \<Rightarrow> (Inl p, t')
                | (Inr (allocatable, cost), t') \<Rightarrow>
                    (Inr (scorer r cost allocatable, None), t'))))"

section \<open>The ranking policy\<close>

text \<open>
  Modelled from the spec: the Least ranking policy. The function that \<open>score\<close> calls through
  the \<open>scorer\<close> field is built outside \<open>metrics_obtain.go\<close> and is not among the source files,
  so its model follows section 4.4 of the specification: the utilization fraction is the
  weighted cost over the weighted allocatable, and is 0 by definition when the weighted
  allocatable is 0; the score is \<open>maxScore * (1 - fraction)\<close>, rounded and clamped to
  \<open>[0, maxScore]\<close>. The specification leaves the rounding rule to the implementation, so it
  is the parameter \<open>rnd\<close>. A division by zero is a fault: \<open>divide_checked\<close> returns \<open>None\<close>
  there, and so do the functions that use it.
\<close>

definition divide_checked :: "rat \<Rightarrow> rat \<Rightarrow> rat option" where
  "divide_checked a b = (if b = 0 then None else Some (a / b))"

definition utilizationFraction :: "int \<Rightarrow> int \<Rightarrow> rat option" where
  "utilizationFraction weightedCost weightedAllocatable =
     (if weightedAllocatable = 0 then Some 0
      else divide_checked (of_int weightedCost) (of_int weightedAllocatable))"

definition clamp :: "int \<Rightarrow> int \<Rightarrow> int \<Rightarrow> int" where
  "clamp lo hi x = (if x < lo then lo else if hi < x then hi else x)"

definition leastScore :: "(rat \<Rightarrow> int) \<Rightarrow> int \<Rightarrow> int \<Rightarrow> int \<Rightarrow> int option" where
  "leastScore rnd maxScore weightedCost weightedAllocatable =
     map_option (\<lambda>fraction. clamp 0 maxScore (rnd (of_int maxScore * (1 - fraction))))
       (utilizationFraction weightedCost weightedAllocatable)"

section \<open>The result of the loop on the static path\<close>

text \<open>
  The two value maps that the loop of \<open>score\<close> has built from the maps \<open>acc\<close> once it has
  stored the static estimate under every key of \<open>keys\<close>.
\<close>

definition static_maps ::
    "k8s \<Rightarrow> NodeInfo \<Rightarrow> ResourceName list \<Rightarrow> resourceToValueMap \<times> resourceToValueMap \<Rightarrow>
       resourceToValueMap \<times> resourceToValueMap" where
  "static_maps K nodeInfo keys acc =
     (\<lambda>x. if x \<in> set keys then Some (fst (calculateResourceAllocatableRequest K nodeInfo x))
          else fst acc x,
      \<lambda>x. if x \<in> set keys then Some (snd (calculateResourceAllocatableRequest K nodeInfo x))
          else snd acc x)"

section \<open>Example inputs\<close>

text \<open>
  A node with 4000 millicores and 8 GiB allocatable, three pods bound to it, and the requests
  the scheduler framework records for them; a scorer configured like the README's example;
  and three metrics servers: one that fails, one that reports zero usage, one that reports
  a load.
\<close>

definition example_k8s :: k8s where
  "example_k8s =
     \<lparr>ResourcePodNum = ''podNum'', IsScalarResourceName = (\<lambda>name. CHR ''/'' \<in> set name)\<rparr>"

definition example_node :: NodeInfo where
  "example_node =
     \<lparr>node = Some \<lparr>ObjectMeta_Name = ''node-1''\<rparr>,
      Pods = [''pod-a'', ''pod-b'', ''pod-c''],
      Requested = \<lparr>MilliCPU = 1500, Memory = 3221225472, EphemeralStorage = 1024,
        AllowedPodNumber = 0, ScalarResources = [''example.com/gpu'' \<mapsto> 1]\<rparr>,
      NonZeroRequested = \<lparr>MilliCPU = 2000, Memory = 4294967296, EphemeralStorage = 0,
        AllowedPodNumber = 0, ScalarResources = Map.empty\<rparr>,
      Allocatable = \<lparr>MilliCPU = 4000, Memory = 8589934592, EphemeralStorage = 10240,
        AllowedPodNumber = 110, ScalarResources = [''example.com/gpu'' \<mapsto> 4]\<rparr>\<rparr>"

definition example_scorer :: resourceAllocationScorer where
  "example_scorer =
     \<lparr>Name = ''NodeResourcesAllocatable'',
      scorer = (\<lambda>requested allocatable. index requested ResourceCPU),
      resourceToWeightMap = Some [(ResourceCPU, 1000000), (ResourceMemory, 1)],
      metricsClient = None\<rparr>"

definition failing_client :: Clientset where
  "failing_client = (\<lambda>t name. Inl ''the server is currently unable to handle the request'')"

definition idle_client :: Clientset where
  "idle_client = (\<lambda>t name. Inr \<lparr>Usage_Cpu_MilliValue = 0, Usage_Memory_Value = 0\<rparr>)"

definition busy_client :: Clientset where
  "busy_client =
     (\<lambda>t name. Inr \<lparr>Usage_Cpu_MilliValue = 1200, Usage_Memory_Value = 2147483648\<rparr>)"

section \<open>Properties\<close>

subsection \<open>The resolver and the loop\<close>

lemma resolver_no_client:
  "metricsClient r = None \<Longrightarrow>
   calculateResourceAllocatableCost K r nodeInfo resource t =
     (Inr (calculateResourceAllocatableRequest K nodeInfo resource), t)"
  by (simp add: calculateResourceAllocatableCost_def)

lemma resolver_query_error:
  "metricsClient r = Some client \<Longrightarrow> node nodeInfo = Some n \<Longrightarrow>
   client t (ObjectMeta_Name n) = Inl err \<Longrightarrow>
   calculateResourceAllocatableCost K r nodeInfo resource t =
     (Inr (calculateResourceAllocatableRequest K nodeInfo resource), Suc t)"
  by (simp add: calculateResourceAllocatableCost_def)

lemma resolver_returns:
  "node nodeInfo = Some n \<Longrightarrow>
   \<exists>p t'. calculateResourceAllocatableCost K r nodeInfo resource t = (Inr p, t')"
  by (simp add: calculateResourceAllocatableCost_def split: option.split sum.split)

lemma resolver_allocatable:
  "calculateResourceAllocatableCost K r nodeInfo resource t = (Inr p, t') \<Longrightarrow>
   fst p = fst (calculateResourceAllocatableRequest K nodeInfo resource)"
  by (auto simp: calculateResourceAllocatableCost_def calculateResourceAllocatableRequest_def
      split: option.splits sum.splits if_splits)

lemma static_maps_Cons:
  "static_maps K nodeInfo (k # keys) (al, co) =
   static_maps K nodeInfo keys
     (al(k \<mapsto> fst (calculateResourceAllocatableRequest K nodeInfo k)),
      co(k \<mapsto> snd (calculateResourceAllocatableRequest K nodeInfo k)))"
  by (auto simp: static_maps_def fun_eq_iff)

lemma score_range_no_client:
  "metricsClient r = None \<Longrightarrow>
   score_range K r nodeInfo keys (al, co) t = (Inr (static_maps K nodeInfo keys (al, co)), t)"
proof (induction keys arbitrary: al co)
  case Nil
  show ?case by (simp add: static_maps_def)
next
  case (Cons k keys)
  obtain a c where s: "calculateResourceAllocatableRequest K nodeInfo k = (a, c)"
    by (cases "calculateResourceAllocatableRequest K nodeInfo k")
  from Cons.prems have
    "score_range K r nodeInfo (k # keys) (al, co) t =
     score_range K r nodeInfo keys (al(k \<mapsto> a), co(k \<mapsto> c)) t"
    by (simp add: resolver_no_client s)
  also have "\<dots> = (Inr (static_maps K nodeInfo keys (al(k \<mapsto> a), co(k \<mapsto> c))), t)"
    using Cons.prems by (rule Cons.IH)
  also have "static_maps K nodeInfo keys (al(k \<mapsto> a), co(k \<mapsto> c)) =
      static_maps K nodeInfo (k # keys) (al, co)"
    by (simp add: static_maps_Cons s)
  finally show ?case .
qed

lemma score_range_queries_fail:
  "metricsClient r = Some client \<Longrightarrow> node nodeInfo = Some n \<Longrightarrow>
   \<forall>u\<ge>t. isl (client u (ObjectMeta_Name n)) \<Longrightarrow>
   score_range K r nodeInfo keys (al, co) t =
     (Inr (static_maps K nodeInfo keys (al, co)), t + length keys)"
proof (induction keys arbitrary: al co t)
  case Nil
  show ?case by (simp add: static_maps_def)
next
  case (Cons k keys)
  obtain a c where s: "calculateResourceAllocatableRequest K nodeInfo k = (a, c)"
    by (cases "calculateResourceAllocatableRequest K nodeInfo k")
  from Cons.prems(3) obtain err where "client t (ObjectMeta_Name n) = Inl err"
    by (auto simp: isl_def)
  with Cons.prems have
    "score_range K r nodeInfo (k # keys) (al, co) t =
     score_range K r nodeInfo keys (al(k \<mapsto> a), co(k \<mapsto> c)) (Suc t)"
    by (simp add: resolver_query_error s)
  also have "\<dots> = (Inr (static_maps K nodeInfo keys (al(k \<mapsto> a), co(k \<mapsto> c))),
      Suc t + length keys)"
    using Cons.prems by (intro Cons.IH) auto
  also have "static_maps K nodeInfo keys (al(k \<mapsto> a), co(k \<mapsto> c)) =
      static_maps K nodeInfo (k # keys) (al, co)"
    by (simp add: static_maps_Cons s)
  finally show ?case by simp
qed

lemma score_range_returns:
  "node nodeInfo = Some n \<Longrightarrow>
   \<exists>m t'. score_range K r nodeInfo keys acc t = (Inr m, t')"
proof (induction keys arbitrary: acc t)
  case Nil
  show ?case by (cases acc) simp
next
  case (Cons k keys)
  obtain al co where acc: "acc = (al, co)" by (cases acc)
  from Cons.prems obtain p t' where
    p: "calculateResourceAllocatableCost K r nodeInfo k t = (Inr p, t')"
    using resolver_returns by blast
  obtain a c where ac: "p = (a, c)" by (cases p)
  from Cons.IH [OF Cons.prems] obtain m t'' where
    "score_range K r nodeInfo keys (al(k \<mapsto> a), co(k \<mapsto> c)) t' = (Inr m, t'')"
    by blast
  then show ?case by (simp add: acc p ac)
qed

lemma static_maps_cong:
  "set keys1 = set keys2 \<Longrightarrow> static_maps K nodeInfo keys1 acc = static_maps K nodeInfo keys2 acc"
  by (simp add: static_maps_def)

lemma keys_of_map_of: "map_of ws1 = map_of ws2 \<Longrightarrow> set (map fst ws1) = set (map fst ws2)"
  by (metis dom_map_of_conv_image_fst set_map)

lemma sint_word_of_nat_64:
  "n < 2 ^ 63 \<Longrightarrow> sint (word_of_nat n :: int64) = int n"
proof -
  assume "n < 2 ^ 63"
  then have "int n < int (2 ^ 63)" by (simp only: of_nat_less_iff)
  then have "int n < 2 ^ 63" by simp
  moreover have "- (2 ^ 63) \<le> int n" by simp
  ultimately have "signed_take_bit 63 (int n) = int n"
    by (simp add: signed_take_bit_int_eq_self)
  then show ?thesis by (simp add: signed_of_nat)
qed

subsection \<open>Evaluating the examples\<close>

lemmas example_defs = example_k8s_def example_node_def example_scorer_def failing_client_def
  idle_client_def busy_client_def ResourceCPU_def ResourceMemory_def ResourceEphemeralStorage_def
  calculateResourceAllocatableCost_def calculateResourceAllocatableRequest_def score_def
  index_def NewStatus_def distinct_names_def

subsection \<open>Error conditions of \<open>score\<close>\<close>

text \<open>
  Claim C1, as stated, asks that \<open>score\<close> fails when the weight map is empty. The guard of
  \<open>score\<close> tests the map against \<open>nil\<close>, and an empty map that is not \<open>nil\<close> passes it: the
  loop runs no iteration, the scorer function is called on two empty maps, and its value is
  returned with the \<open>nil\<close> status. On the example node, with an empty weight map, \<open>score\<close>
  returns the score 0 and no error.
\<close>

theorem score_empty_weights_counterexample:
  "fst (score example_k8s (example_scorer\<lparr>resourceToWeightMap := Some []\<rparr>) example_node 0) =
     Inr (0, None)"
  by (simp add: example_defs)

text \<open>
  Claim C1, amended: when the node is absent, \<open>score\<close> returns the score 0 with an Error
  status "node not found"; when the node is present and the weight map is \<open>nil\<close>, it returns
  0 with an Error status "resources not found"; and when the node is present and the
  weight map is not \<open>nil\<close>, also when it is empty, it returns a score with the \<open>nil\<close> status
  (for the empty map: the value of the scorer function on two empty maps).
\<close>

theorem score_error_conditions:
  "(node nodeInfo = None \<longrightarrow>
      score K r nodeInfo t = (Inr (0, Some (NewStatus Error ''node not found'')), t)) \<and>
   (node nodeInfo \<noteq> None \<and> resourceToWeightMap r = None \<longrightarrow>
      score K r nodeInfo t = (Inr (0, Some (NewStatus Error ''resources not found'')), t)) \<and>
   (node nodeInfo \<noteq> None \<and> resourceToWeightMap r \<noteq> None \<longrightarrow>
      (\<exists>s t'. score K r nodeInfo t = (Inr (s, None), t'))) \<and>
   (node nodeInfo \<noteq> None \<and> resourceToWeightMap r = Some [] \<longrightarrow>
      score K r nodeInfo t = (Inr (scorer r Map.empty Map.empty, None), t))"
proof (intro conjI impI)
  assume "node nodeInfo = None"
  then show "score K r nodeInfo t = (Inr (0, Some (NewStatus Error ''node not found'')), t)"
    by (simp add: score_def)
next
  assume "node nodeInfo \<noteq> None \<and> resourceToWeightMap r = None"
  then show "score K r nodeInfo t = (Inr (0, Some (NewStatus Error ''resources not found'')), t)"
    by (auto simp: score_def)
next
  assume a: "node nodeInfo \<noteq> None \<and> resourceToWeightMap r \<noteq> None"
  then obtain n ws where n: "node nodeInfo = Some n" and ws: "resourceToWeightMap r = Some ws"
    by auto
  obtain m t' where
    "score_range K r nodeInfo (map fst ws) (Map.empty, Map.empty) t = (Inr m, t')"
    using score_range_returns [OF n] by blast
  then show "\<exists>s t'. score K r nodeInfo t = (Inr (s, None), t')"
    by (cases m) (simp add: score_def n ws)
next
  assume "node nodeInfo \<noteq> None \<and> resourceToWeightMap r = Some []"
  then show "score K r nodeInfo t = (Inr (scorer r Map.empty Map.empty, None), t)"
    by (auto simp: score_def)
qed

theorem score_error_conditions_witness:
  "score example_k8s example_scorer (example_node\<lparr>node := None\<rparr>) 0 =
     (Inr (0, Some \<lparr>code = Error, reasons = [''node not found'']\<rparr>), 0) \<and>
   score example_k8s (example_scorer\<lparr>resourceToWeightMap := None\<rparr>) example_node 0 =
     (Inr (0, Some \<lparr>code = Error, reasons = [''resources not found'']\<rparr>), 0) \<and>
   score example_k8s example_scorer example_node 0 = (Inr (2000, None), 0) \<and>
   score example_k8s (example_scorer\<lparr>resourceToWeightMap := Some []\<rparr>) example_node 0 =
     (Inr (0, None), 0)"
  using score_error_conditions [where K = example_k8s and r = example_scorer
      and nodeInfo = "example_node\<lparr>node := None\<rparr>" and t = 0]
    score_error_conditions [where K = example_k8s
      and r = "example_scorer\<lparr>resourceToWeightMap := None\<rparr>" and nodeInfo = example_node and t = 0]
    score_error_conditions [where K = example_k8s and r = example_scorer
      and nodeInfo = example_node and t = 0]
    score_error_conditions [where K = example_k8s
      and r = "example_scorer\<lparr>resourceToWeightMap := Some []\<rparr>" and nodeInfo = example_node and t = 0]
  by (simp add: example_defs)

subsection \<open>The resolver's fallback\<close>

text \<open>
  Claim C2: with a telemetry client configured, when the query returns an error the resolver
  returns, for every node and every dimension, exactly the pair of the static estimate, and
  no failure: one query was issued and the result is a pair. For the whole of \<open>score\<close>:
  when every query of the call fails, \<open>score\<close> returns the score and the status that it
  returns with no client configured.
\<close>

theorem telemetry_error_falls_back:
  assumes "metricsClient r = Some client" and "node nodeInfo = Some n"
  shows "(client t (ObjectMeta_Name n) = Inl err \<longrightarrow>
            calculateResourceAllocatableCost K r nodeInfo resource t =
              (Inr (calculateResourceAllocatableRequest K nodeInfo resource), Suc t)) \<and>
         ((\<forall>u\<ge>t. isl (client u (ObjectMeta_Name n))) \<longrightarrow>
            fst (score K r nodeInfo t) = fst (score K (r\<lparr>metricsClient := None\<rparr>) nodeInfo t))"
proof (intro conjI impI)
  assume "client t (ObjectMeta_Name n) = Inl err"
  with assms show "calculateResourceAllocatableCost K r nodeInfo resource t =
      (Inr (calculateResourceAllocatableRequest K nodeInfo resource), Suc t)"
    by (rule resolver_query_error)
next
  assume fails: "\<forall>u\<ge>t. isl (client u (ObjectMeta_Name n))"
  show "fst (score K r nodeInfo t) = fst (score K (r\<lparr>metricsClient := None\<rparr>) nodeInfo t)"
  proof (cases "resourceToWeightMap r")
    case None
    then show ?thesis by (simp add: score_def assms(2))
  next
    case (Some ws)
    have "score_range K r nodeInfo (map fst ws) (Map.empty, Map.empty) t =
        (Inr (static_maps K nodeInfo (map fst ws) (Map.empty, Map.empty)), t + length (map fst ws))"
      using assms fails by (rule score_range_queries_fail)
    moreover have "score_range K (r\<lparr>metricsClient := None\<rparr>) nodeInfo (map fst ws)
        (Map.empty, Map.empty) t =
        (Inr (static_maps K nodeInfo (map fst ws) (Map.empty, Map.empty)), t)"
      by (rule score_range_no_client) simp
    ultimately show ?thesis
      by (simp add: score_def assms(2) Some static_maps_def)
  qed
qed

theorem telemetry_error_falls_back_witness:
  "calculateResourceAllocatableCost example_k8s
     (example_scorer\<lparr>metricsClient := Some failing_client\<rparr>) example_node ResourceMemory 0 =
     (Inr (8589934592, 4294967296), 1) \<and>
   fst (score example_k8s (example_scorer\<lparr>metricsClient := Some failing_client\<rparr>)
     example_node 0) = Inr (2000, None)"
  using telemetry_error_falls_back [where r = "example_scorer\<lparr>metricsClient := Some failing_client\<rparr>"
      and client = failing_client and nodeInfo = example_node
      and n = "\<lparr>ObjectMeta_Name = ''node-1''\<rparr>" and t = 0 and K = example_k8s
      and resource = ResourceMemory
      and err = "''the server is currently unable to handle the request''"]
  by (simp add: example_defs)

text \<open>
  Claim C3: with a telemetry client configured and a query that succeeds, a measured CPU
  usage of exactly 0 millicores makes the resolver return, for the CPU dimension, the node's
  allocatable millicores paired with the non-zero-requested millicores, which is the output
  of the static path; and likewise a measured memory usage of exactly 0 bytes for the memory
  dimension.
\<close>

theorem zero_usage_falls_back:
  assumes "metricsClient r = Some client" and "node nodeInfo = Some n"
    and "client t (ObjectMeta_Name n) = Inr nodeMetrics"
  shows "(Usage_Cpu_MilliValue nodeMetrics = 0 \<longrightarrow>
            fst (calculateResourceAllocatableCost K r nodeInfo ResourceCPU t) =
              Inr (MilliCPU (Allocatable nodeInfo), MilliCPU (NonZeroRequested nodeInfo)) \<and>
            fst (calculateResourceAllocatableCost K r nodeInfo ResourceCPU t) =
              Inr (calculateResourceAllocatableRequest K nodeInfo ResourceCPU)) \<and>
         (Usage_Memory_Value nodeMetrics = 0 \<longrightarrow>
            fst (calculateResourceAllocatableCost K r nodeInfo ResourceMemory t) =
              Inr (Memory (Allocatable nodeInfo), Memory (NonZeroRequested nodeInfo)) \<and>
            fst (calculateResourceAllocatableCost K r nodeInfo ResourceMemory t) =
              Inr (calculateResourceAllocatableRequest K nodeInfo ResourceMemory))"
  using assms
  by (simp add: calculateResourceAllocatableCost_def calculateResourceAllocatableRequest_def
      ResourceCPU_def ResourceMemory_def)

theorem zero_usage_falls_back_witness:
  "fst (calculateResourceAllocatableCost example_k8s
     (example_scorer\<lparr>metricsClient := Some idle_client\<rparr>) example_node ResourceCPU 0) =
     Inr (4000, 2000) \<and>
   fst (calculateResourceAllocatableCost example_k8s
     (example_scorer\<lparr>metricsClient := Some idle_client\<rparr>) example_node ResourceMemory 0) =
     Inr (8589934592, 4294967296) \<and>
   calculateResourceAllocatableRequest example_k8s example_node ResourceCPU = (4000, 2000) \<and>
   calculateResourceAllocatableRequest example_k8s example_node ResourceMemory =
     (8589934592, 4294967296)"
  using zero_usage_falls_back [where r = "example_scorer\<lparr>metricsClient := Some idle_client\<rparr>"
      and client = idle_client and nodeInfo = example_node
      and n = "\<lparr>ObjectMeta_Name = ''node-1''\<rparr>" and t = 0 and K = example_k8s
      and nodeMetrics = "\<lparr>Usage_Cpu_MilliValue = 0, Usage_Memory_Value = 0\<rparr>"]
  by (simp add: example_defs)

text \<open>
  Claim C4 says that for ephemeral storage the two paths return the same pair, the
  allocatable and the requested ephemeral storage. The code does so when the query succeeds
  (it reads \<open>nodeInfo.Requested.EphemeralStorage\<close>), but the static path reads
  \<open>nodeInfo.NonZeroRequested.EphemeralStorage\<close>. On the example node, whose pods request
  1024 bytes and whose non-zero-requested resources record none, the paths return the costs
  1024 and 0.
\<close>

theorem ephemeral_storage_paths_differ:
  "calculateResourceAllocatableCost example_k8s
     (example_scorer\<lparr>metricsClient := Some busy_client\<rparr>) example_node
     ResourceEphemeralStorage 0 = (Inr (10240, 1024), 1) \<and>
   calculateResourceAllocatableCost example_k8s example_scorer example_node
     ResourceEphemeralStorage 0 = (Inr (10240, 0), 0) \<and>
   calculateResourceAllocatableRequest example_k8s example_node ResourceEphemeralStorage =
     (10240, 0)"
  by (simp add: example_defs)

text \<open>
  Claim C5: for the pod-count dimension the static path returns the allowed pod number of
  the node paired with the number of pods bound to it, and so does the resolver whenever it
  returns (no client, a failing query, a successful query with any usage). The cost is the
  length of the pod list converted to \<open>int64\<close>, which reads as that length.
\<close>

theorem pod_count_is_static:
  assumes "distinct_names K"
  shows "calculateResourceAllocatableRequest K nodeInfo (ResourcePodNum K) =
           (AllowedPodNumber (Allocatable nodeInfo), word_of_nat (length (Pods nodeInfo))) \<and>
         (metricsClient r = None \<or> node nodeInfo \<noteq> None \<longrightarrow>
            fst (calculateResourceAllocatableCost K r nodeInfo (ResourcePodNum K) t) =
              Inr (AllowedPodNumber (Allocatable nodeInfo),
                   word_of_nat (length (Pods nodeInfo)))) \<and>
         (length (Pods nodeInfo) < 2 ^ 63 \<longrightarrow>
            sint (snd (calculateResourceAllocatableRequest K nodeInfo (ResourcePodNum K))) =
              int (length (Pods nodeInfo)))"
proof -
  have static: "calculateResourceAllocatableRequest K nodeInfo (ResourcePodNum K) =
      (AllowedPodNumber (Allocatable nodeInfo), word_of_nat (length (Pods nodeInfo)))"
    using assms by (simp add: calculateResourceAllocatableRequest_def distinct_names_def)
  have "fst (calculateResourceAllocatableCost K r nodeInfo (ResourcePodNum K) t) =
      Inr (AllowedPodNumber (Allocatable nodeInfo), word_of_nat (length (Pods nodeInfo)))"
    if "metricsClient r = None \<or> node nodeInfo \<noteq> None"
    using that assms
    by (auto simp: calculateResourceAllocatableCost_def static distinct_names_def
        split: option.split sum.split)
  then show ?thesis
    by (simp add: static sint_word_of_nat_64)
qed

theorem pod_count_is_static_witness:
  "distinct_names example_k8s \<and>
   calculateResourceAllocatableRequest example_k8s example_node ''podNum'' = (110, 3) \<and>
   fst (calculateResourceAllocatableCost example_k8s
     (example_scorer\<lparr>metricsClient := Some busy_client\<rparr>) example_node ''podNum'' 0) =
     Inr (110, 3) \<and>
   sint (snd (calculateResourceAllocatableRequest example_k8s example_node ''podNum'')) = 3"
  using pod_count_is_static [where K = example_k8s and nodeInfo = example_node and t = 0
      and r = "example_scorer\<lparr>metricsClient := Some busy_client\<rparr>"]
  by (simp add: example_defs)

text \<open>
  Claim C6: for a dimension name that is none of cpu, memory, pod count and ephemeral
  storage and that is not a scalar resource name, the static path returns \<open>(0, 0)\<close>, and so
  does the resolver with a client configured, whatever the query returns; the result is a
  pair and not a failure.
\<close>

theorem unsupported_dimension_is_zero:
  assumes "resource \<noteq> ResourceCPU" and "resource \<noteq> ResourceMemory"
    and "resource \<noteq> ResourcePodNum K" and "resource \<noteq> ResourceEphemeralStorage"
    and "\<not> IsScalarResourceName K resource"
  shows "calculateResourceAllocatableRequest K nodeInfo resource = (0, 0) \<and>
         (metricsClient r = None \<or> node nodeInfo \<noteq> None \<longrightarrow>
            fst (calculateResourceAllocatableCost K r nodeInfo resource t) = Inr (0, 0))"
  using assms
  by (auto simp: calculateResourceAllocatableCost_def calculateResourceAllocatableRequest_def
      split: option.split sum.split)

theorem unsupported_dimension_is_zero_witness:
  "calculateResourceAllocatableRequest example_k8s example_node ''storage'' = (0, 0) \<and>
   fst (calculateResourceAllocatableCost example_k8s
     (example_scorer\<lparr>metricsClient := Some busy_client\<rparr>) example_node ''storage'' 0) =
     Inr (0, 0) \<and>
   fst (calculateResourceAllocatableCost example_k8s
     (example_scorer\<lparr>metricsClient := Some failing_client\<rparr>) example_node ''storage'' 0) =
     Inr (0, 0)"
  using unsupported_dimension_is_zero [where K = example_k8s and nodeInfo = example_node
      and t = 0 and r = "example_scorer\<lparr>metricsClient := Some busy_client\<rparr>"
      and resource = "''storage''"]
    unsupported_dimension_is_zero [where K = example_k8s and nodeInfo = example_node
      and t = 0 and r = "example_scorer\<lparr>metricsClient := Some failing_client\<rparr>"
      and resource = "''storage''"]
  by (simp add: example_k8s_def example_node_def ResourceCPU_def ResourceMemory_def
      ResourceEphemeralStorage_def)

subsection \<open>The default weights\<close>

text \<open>
  Claim C7: the default weight table has exactly three entries: memory with weight 1, cpu
  with weight \<open>2 ^ 20 = 1048576\<close>, and pod count with weight 1; so one millicore of CPU
  weighs what \<open>1024 * 1024\<close> bytes of memory weigh.
\<close>

theorem default_weights:
  assumes "distinct_names K"
  shows "map_of (defaultResourcesToWeightMap K) ResourceMemory = Some 1 \<and>
         map_of (defaultResourcesToWeightMap K) ResourceCPU = Some 1048576 \<and>
         map_of (defaultResourcesToWeightMap K) ResourceCPU = Some (2 ^ 20) \<and>
         map_of (defaultResourcesToWeightMap K) (ResourcePodNum K) = Some 1 \<and>
         dom (map_of (defaultResourcesToWeightMap K)) =
           {ResourceMemory, ResourceCPU, ResourcePodNum K} \<and>
         distinct (map fst (defaultResourcesToWeightMap K)) \<and>
         length (defaultResourcesToWeightMap K) = 3 \<and>
         sint (index (map_of (defaultResourcesToWeightMap K)) ResourceCPU) * 1 =
           sint (index (map_of (defaultResourcesToWeightMap K)) ResourceMemory) * (1024 * 1024)"
  using assms
  by (auto simp: defaultResourcesToWeightMap_def distinct_names_def index_def
      ResourceCPU_def ResourceMemory_def)

theorem default_weights_witness:
  "distinct_names example_k8s \<and>
   map_of (defaultResourcesToWeightMap example_k8s) ''memory'' = Some 1 \<and>
   map_of (defaultResourcesToWeightMap example_k8s) ''cpu'' = Some 1048576 \<and>
   map_of (defaultResourcesToWeightMap example_k8s) ''podNum'' = Some 1 \<and>
   dom (map_of (defaultResourcesToWeightMap example_k8s)) = {''memory'', ''cpu'', ''podNum''}"
  using default_weights [where K = example_k8s]
  by (simp add: example_k8s_def distinct_names_def ResourceCPU_def ResourceMemory_def
      ResourceEphemeralStorage_def)

subsection \<open>Determinism of \<open>score\<close>\<close>

text \<open>
  Claim C8: with no telemetry client configured, \<open>score\<close> is deterministic. The two things
  that can differ between two invocations on the same inputs are the order in which \<open>range\<close>
  yields the keys of the weight map and the moment of the call. So: for two scorers with no
  client, the same scorer function and weight maps that are both \<open>nil\<close> or hold the same
  entries (in any order), \<open>score\<close> on the same node returns the same score and the same
  status, whenever it is called.
\<close>

theorem score_deterministic:
  assumes "metricsClient r1 = None" and "metricsClient r2 = None"
    and "scorer r1 = scorer r2"
    and "rel_option (\<lambda>ws1 ws2. map_of ws1 = map_of ws2)
           (resourceToWeightMap r1) (resourceToWeightMap r2)"
  shows "fst (score K r1 nodeInfo t1) = fst (score K r2 nodeInfo t2)"
proof (cases "resourceToWeightMap r1")
  case None
  with assms(4) have "resourceToWeightMap r2 = None"
    by (cases "resourceToWeightMap r2") simp_all
  with None show ?thesis
    by (simp add: score_def split: option.split)
next
  case (Some ws1)
  with assms(4) obtain ws2 where ws2: "resourceToWeightMap r2 = Some ws2"
    and same: "map_of ws1 = map_of ws2"
    by (cases "resourceToWeightMap r2") simp_all
  have "set (map fst ws1) = set (map fst ws2)"
    using same by (rule keys_of_map_of)
  then have "static_maps K nodeInfo (map fst ws1) (Map.empty, Map.empty) =
      static_maps K nodeInfo (map fst ws2) (Map.empty, Map.empty)"
    by (rule static_maps_cong)
  then show ?thesis
    by (simp add: score_def Some ws2 score_range_no_client assms(1,2,3) split: option.split prod.split)
qed

theorem score_deterministic_witness:
  "fst (score example_k8s example_scorer example_node 0) = Inr (2000, None) \<and>
   fst (score example_k8s
     (example_scorer\<lparr>resourceToWeightMap := Some [(ResourceMemory, 1), (ResourceCPU, 1000000)]\<rparr>)
     example_node 7) = Inr (2000, None)"
proof -
  have same: "rel_option (\<lambda>ws1 ws2. map_of ws1 = map_of ws2)
      (resourceToWeightMap example_scorer)
      (resourceToWeightMap (example_scorer
        \<lparr>resourceToWeightMap := Some [(ResourceMemory, 1), (ResourceCPU, 1000000)]\<rparr>))"
    by (auto simp: example_scorer_def fun_eq_iff ResourceCPU_def ResourceMemory_def)
  have "fst (score example_k8s example_scorer example_node 0) =
      fst (score example_k8s
        (example_scorer\<lparr>resourceToWeightMap := Some [(ResourceMemory, 1), (ResourceCPU, 1000000)]\<rparr>)
        example_node 7)"
    by (rule score_deterministic [OF _ _ _ same]) (simp_all add: example_scorer_def)
  moreover have "fst (score example_k8s example_scorer example_node 0) = Inr (2000, None)"
    by (simp add: example_defs)
  ultimately show ?thesis by simp
qed

subsection \<open>The Least policy\<close>

text \<open>
  Claim C9: in Least mode, for every weighted cost and weighted allocatable, the score is
  \<open>maxScore * (1 - weightedCost / weightedAllocatable)\<close>, rounded and clamped to
  \<open>[0, maxScore]\<close>, with the fraction taken as 0 when the weighted allocatable is 0; then the
  score is \<open>maxScore\<close>. No division by zero happens: a score is always returned, and it lies
  in \<open>[0, maxScore]\<close>. This holds for every rounding rule that leaves integers as they are.
\<close>

theorem least_score:
  assumes "rnd (of_int maxScore) = maxScore" and "0 \<le> maxScore"
  shows "leastScore rnd maxScore weightedCost weightedAllocatable =
           Some (clamp 0 maxScore (rnd (of_int maxScore *
             (1 - (if weightedAllocatable = 0 then 0
                   else of_int weightedCost / of_int weightedAllocatable))))) \<and>
         (weightedAllocatable = 0 \<longrightarrow>
            leastScore rnd maxScore weightedCost weightedAllocatable = Some maxScore) \<and>
         (\<exists>s. leastScore rnd maxScore weightedCost weightedAllocatable = Some s \<and>
              0 \<le> s \<and> s \<le> maxScore)"
  using assms
  by (simp add: leastScore_def utilizationFraction_def divide_checked_def clamp_def)

theorem least_score_witness:
  "leastScore floor 100 (2000 * 1000000 + 4294967296) (4000 * 1000000 + 8589934592) = Some 50 \<and>
   leastScore floor 100 3000 4000 = Some 25 \<and>
   leastScore floor 100 5000 4000 = Some 0 \<and>
   leastScore floor 100 (- 4000) 4000 = Some 100 \<and>
   leastScore floor 100 2000 0 = Some 100"
  using least_score [where rnd = floor and maxScore = 100
      and weightedCost = "2000 * 1000000 + 4294967296"
      and weightedAllocatable = "4000 * 1000000 + 8589934592"]
    least_score [where rnd = floor and maxScore = 100 and weightedCost = 3000
      and weightedAllocatable = 4000]
    least_score [where rnd = floor and maxScore = 100 and weightedCost = 5000
      and weightedAllocatable = 4000]
    least_score [where rnd = floor and maxScore = 100 and weightedCost = "- 4000"
      and weightedAllocatable = 4000]
    least_score [where rnd = floor and maxScore = 100 and weightedCost = 2000
      and weightedAllocatable = 0]
  by (simp add: clamp_def)

subsection \<open>The allocatable component\<close>

text \<open>
  Claim C10: for every node, every dimension and every telemetry outcome (no client, a
  failing query, a successful query with any usage), the allocatable component that the
  resolver returns is the allocatable component of the static path, which is computed from
  the node snapshot alone; telemetry reaches the cost component only.
\<close>

theorem allocatable_is_static:
  assumes "metricsClient r = None \<or> node nodeInfo \<noteq> None"
  shows "\<exists>cost t'. calculateResourceAllocatableCost K r nodeInfo resource t =
           (Inr (fst (calculateResourceAllocatableRequest K nodeInfo resource), cost), t')"
proof -
  have "\<exists>p t'. calculateResourceAllocatableCost K r nodeInfo resource t = (Inr p, t')"
  proof (cases "node nodeInfo")
    case None
    with assms show ?thesis by (simp add: resolver_no_client)
  next
    case (Some n)
    then show ?thesis by (rule resolver_returns)
  qed
  then obtain p t' where
    p: "calculateResourceAllocatableCost K r nodeInfo resource t = (Inr p, t')"
    by blast
  then have "fst p = fst (calculateResourceAllocatableRequest K nodeInfo resource)"
    by (rule resolver_allocatable)
  with p show ?thesis by (cases p) auto
qed

theorem allocatable_is_static_witness:
  "calculateResourceAllocatableCost example_k8s
     (example_scorer\<lparr>metricsClient := Some busy_client\<rparr>) example_node ResourceCPU 0 =
     (Inr (4000, 1200), 1) \<and>
   fst (calculateResourceAllocatableRequest example_k8s example_node ResourceCPU) = 4000"
  using allocatable_is_static [where K = example_k8s and nodeInfo = example_node and t = 0
      and r = "example_scorer\<lparr>metricsClient := Some busy_client\<rparr>" and resource = ResourceCPU]
  by (simp add: example_defs)

end
